theory Spec2Isabelle
  imports Complex_Main
begin

section \<open>The platform's numbers\<close>

text \<open>
  The handlers compute with JavaScript numbers (IEEE 754 binary64) and the database with
  decimals. A finite number is represented here by the decimal that \<^verbatim>\<open>Number::toString\<close>
  prints for it: the shortest decimal that reads back as the same number. That is also
  the decimal the persistence layer stores for a number, and \<^verbatim>\<open>toNumber()\<close> takes such
  a decimal back to the number it came from. So \<open>1 / 10\<close> stands for the number written
  \<^verbatim>\<open>0.1\<close>. Negation is exact on numbers. Subtraction is not: it rounds the exact
  difference of the two binary values to the nearest binary64 value, ties to even, and
  gives an infinity when that exceeds the range.
\<close>

definition pow2 :: "int \<Rightarrow> rat" where
  "pow2 e = (if 0 \<le> e then 2 ^ nat e else 1 / 2 ^ nat (- e))"

definition pow10 :: "int \<Rightarrow> rat" where
  "pow10 e = (if 0 \<le> e then 10 ^ nat e else 1 / 10 ^ nat (- e))"

function bit_length :: "int \<Rightarrow> int" where
  "bit_length n = (if n \<le> 0 then 0 else bit_length (n div 2) + 1)"
  by pat_completeness auto
termination
  by (relation "measure nat") auto

text \<open>For \<open>0 < x\<close>: the integer \<open>g\<close> with \<open>2 ^ g \<le> x < 2 ^ (g + 1)\<close>, and the same for 10.\<close>

definition floor_log2 :: "rat \<Rightarrow> int" where
  "floor_log2 x =
     (let g = (if 1 \<le> x then bit_length \<lfloor>x\<rfloor> - 1 else 1 - bit_length \<lfloor>1 / x\<rfloor>)
      in if x < pow2 g then g - 1 else g)"

definition floor_log10 :: "rat \<Rightarrow> int" where
  "floor_log10 x =
     (let d = (floor_log2 x * 30103) div 100000
      in if pow10 (d + 2) \<le> x then d + 2
         else if pow10 (d + 1) \<le> x then d + 1
         else if pow10 d \<le> x then d
         else if pow10 (d - 1) \<le> x then d - 1
         else d - 2)"

definition round_half_even :: "rat \<Rightarrow> int" where
  "round_half_even r =
     (let f = \<lfloor>r\<rfloor>; d = r - of_int f
      in if d < 1 / 2 then f
         else if 1 / 2 < d then f + 1
         else if even f then f else f + 1)"

text \<open>
  The binary64 value nearest to \<open>x\<close>: a multiple of \<open>2 ^ e\<close> with a significand of at
  most 53 bits, where \<open>e\<close> is at least -1074 (the subnormal numbers). The result is at
  least \<open>2 ^ 1024\<close> in absolute value exactly when the number is an infinity.
\<close>

definition round_binary64 :: "rat \<Rightarrow> rat" where
  "round_binary64 x =
     (if x = 0 then 0
      else
        let a = \<bar>x\<bar>;
            e = max (floor_log2 a - 52) (- 1074);
            m = round_half_even (a / pow2 e)
        in sgn x * of_int m * pow2 e)"

text \<open>
  \<^verbatim>\<open>Number::toString\<close> on a positive binary64 value \<open>x\<close> with \<open>10 ^ (n - 1) \<le> x < 10 ^ n\<close>:
  the decimal of the fewest digits \<open>k\<close> that rounds to \<open>x\<close>, and the one nearest to \<open>x\<close>
  if there are two. Seventeen digits always suffice.
\<close>

fun shortest_from :: "nat \<Rightarrow> nat \<Rightarrow> int \<Rightarrow> rat \<Rightarrow> rat" where
  "shortest_from 0 k n x = x"
| "shortest_from (Suc fuel) k n x =
     (let scale = pow10 (n - int k);
          v = x / scale;
          lo = \<lfloor>v\<rfloor>;
          hi = \<lceil>v\<rceil>;
          c_lo = of_int lo * scale;
          c_hi = of_int hi * scale;
          ok_lo = (round_binary64 c_lo = x);
          ok_hi = (round_binary64 c_hi = x)
      in if ok_lo \<and> ok_hi then
           (if v - of_int lo < of_int hi - v then c_lo
            else if of_int hi - v < v - of_int lo then c_hi
            else if even lo then c_lo else c_hi)
         else if ok_lo then c_lo
         else if ok_hi then c_hi
         else shortest_from fuel (Suc k) n x)"

definition shortest_decimal :: "rat \<Rightarrow> rat" where
  "shortest_decimal x =
     (if x = 0 then 0
      else sgn x * shortest_from 17 1 (floor_log10 \<bar>x\<bar> + 1) \<bar>x\<bar>)"

text \<open>
  A number that may be an infinity or NaN: \<open>None\<close> is any of these. \<^verbatim>\<open>a - b\<close> on two
  finite numbers, each given by its decimal.
\<close>

type_synonym js_number = "rat option"

definition js_minus :: "rat \<Rightarrow> rat \<Rightarrow> js_number" where
  "js_minus a b =
     (let r = round_binary64 (round_binary64 a - round_binary64 b)
      in if pow2 1024 \<le> \<bar>r\<bar> then None else Some (shortest_decimal r))"

section \<open>The platform's Date object\<close>

text \<open>
  \<^verbatim>\<open>calculateNextRecurringDate\<close> works on a JavaScript \<^verbatim>\<open>Date\<close>. A Date holds a
  time value: a whole number of milliseconds since 1970-01-01T00:00:00Z of absolute value
  at most 8.64e15, or NaN (an Invalid Date). The calendar functions below are the abstract
  operations of ECMA-262 (section "Date Objects"), written over \<open>int\<close>. All numbers that
  occur stay far below 2^53 in absolute value, so the double arithmetic of the platform is
  exact on them.

  The getters and setters the source uses work in the local time of the host. The host's
  time zone is a parameter: \<open>utc_offset\<close> is the offset of local time at an instant given
  in UTC (\<^verbatim>\<open>LocalTZA(t, true)\<close>) and \<open>local_offset\<close> the offset the platform picks for a
  local time (\<^verbatim>\<open>LocalTZA(t, false)\<close>, which also decides for a local time that a
  daylight-saving change skips or repeats).
\<close>

datatype js_date = Date int | InvalidDate

record timezone =
  utc_offset :: "int \<Rightarrow> int"
  local_offset :: "int \<Rightarrow> int"

definition LocalTime :: "timezone \<Rightarrow> int \<Rightarrow> int" where
  "LocalTime tz t = t + utc_offset tz t"

definition UTC :: "timezone \<Rightarrow> int \<Rightarrow> int" where
  "UTC tz t = t - local_offset tz t"

definition msPerDay :: int where
  "msPerDay = 86400000"

definition maxTime :: int where
  "maxTime = 8640000000000000"

definition Day :: "int \<Rightarrow> int" where
  "Day t = t div msPerDay"

definition TimeWithinDay :: "int \<Rightarrow> int" where
  "TimeWithinDay t = t mod msPerDay"

definition DaysInYear :: "int \<Rightarrow> int" where
  "DaysInYear y =
     (if y mod 4 \<noteq> 0 then 365
      else if y mod 100 \<noteq> 0 then 366
      else if y mod 400 \<noteq> 0 then 365
      else 366)"

definition DayFromYear :: "int \<Rightarrow> int" where
  "DayFromYear y =
     365 * (y - 1970) + (y - 1969) div 4 - (y - 1901) div 100 + (y - 1601) div 400"

text \<open>
  \<^verbatim>\<open>YearFromTime(t)\<close> is the largest \<open>y\<close> with \<open>DayFromYear y \<le> Day t\<close>. It is computed
  from an estimate that is off by at most one year (see \<open>YearFromTime_lower\<close> and
  \<open>YearFromTime_upper\<close>).
\<close>

definition YearFromTime :: "int \<Rightarrow> int" where
  "YearFromTime t =
     (let d = Day t;
          y0 = 1970 + (400 * d) div 146097
      in if d < DayFromYear y0 then y0 - 1
         else if DayFromYear (y0 + 1) \<le> d then y0 + 1
         else y0)"

definition InLeapYear :: "int \<Rightarrow> int" where
  "InLeapYear t = (if DaysInYear (YearFromTime t) = 366 then 1 else 0)"

definition DayWithinYear :: "int \<Rightarrow> int" where
  "DayWithinYear t = Day t - DayFromYear (YearFromTime t)"

text \<open>The day within the year on which month \<open>m\<close> (0 to 11) starts; \<open>leap\<close> is 0 or 1.\<close>

definition monthStart :: "int \<Rightarrow> int \<Rightarrow> int" where
  "monthStart m leap =
     (if m = 0 then 0
      else if m = 1 then 31
      else if m = 2 then 59 + leap
      else if m = 3 then 90 + leap
      else if m = 4 then 120 + leap
      else if m = 5 then 151 + leap
      else if m = 6 then 181 + leap
      else if m = 7 then 212 + leap
      else if m = 8 then 243 + leap
      else if m = 9 then 273 + leap
      else if m = 10 then 304 + leap
      else 334 + leap)"

definition MonthFromTime :: "int \<Rightarrow> int" where
  "MonthFromTime t =
     (let dwy = DayWithinYear t; leap = InLeapYear t
      in if dwy < 31 then 0
         else if dwy < 59 + leap then 1
         else if dwy < 90 + leap then 2
         else if dwy < 120 + leap then 3
         else if dwy < 151 + leap then 4
         else if dwy < 181 + leap then 5
         else if dwy < 212 + leap then 6
         else if dwy < 243 + leap then 7
         else if dwy < 273 + leap then 8
         else if dwy < 304 + leap then 9
         else if dwy < 334 + leap then 10
         else 11)"

definition DateFromTime :: "int \<Rightarrow> int" where
  "DateFromTime t = DayWithinYear t - monthStart (MonthFromTime t) (InLeapYear t) + 1"

text \<open>
  \<^verbatim>\<open>MakeDay(year, month, date)\<close>: the day number of the first of the month
  \<open>(year + month div 12, month mod 12)\<close>, plus \<open>date - 1\<close>. A \<open>date\<close> past the end of the
  month runs over into the following months.
\<close>

definition MakeDay :: "int \<Rightarrow> int \<Rightarrow> int \<Rightarrow> int" where
  "MakeDay year month dt =
     (let ym = year + month div 12;
          mn = month mod 12
      in DayFromYear ym + monthStart mn (if DaysInYear ym = 366 then 1 else 0) + dt - 1)"

definition MakeDate :: "int \<Rightarrow> int \<Rightarrow> int" where
  "MakeDate day time = day * msPerDay + time"

definition TimeClip :: "int \<Rightarrow> js_date" where
  "TimeClip time = (if \<bar>time\<bar> > maxTime then InvalidDate else Date time)"

text \<open>The getters return NaN (here \<open>None\<close>) on an Invalid Date.\<close>

fun getDate :: "timezone \<Rightarrow> js_date \<Rightarrow> int option" where
  "getDate tz (Date t) = Some (DateFromTime (LocalTime tz t))"
| "getDate tz InvalidDate = None"

fun getMonth :: "timezone \<Rightarrow> js_date \<Rightarrow> int option" where
  "getMonth tz (Date t) = Some (MonthFromTime (LocalTime tz t))"
| "getMonth tz InvalidDate = None"

fun getFullYear :: "timezone \<Rightarrow> js_date \<Rightarrow> int option" where
  "getFullYear tz (Date t) = Some (YearFromTime (LocalTime tz t))"
| "getFullYear tz InvalidDate = None"

text \<open>
  The setters, with the one argument the source passes. A NaN argument, or (for
  \<^verbatim>\<open>setDate\<close> and \<^verbatim>\<open>setMonth\<close>) an Invalid Date, gives an Invalid Date;
  \<^verbatim>\<open>setFullYear\<close> starts from time value 0 on an Invalid Date.
\<close>

fun setDate :: "timezone \<Rightarrow> js_date \<Rightarrow> int option \<Rightarrow> js_date" where
  "setDate tz (Date t) (Some dt) =
     (let lt = LocalTime tz t
      in TimeClip (UTC tz
           (MakeDate (MakeDay (YearFromTime lt) (MonthFromTime lt) dt) (TimeWithinDay lt))))"
| "setDate tz _ _ = InvalidDate"

fun setMonth :: "timezone \<Rightarrow> js_date \<Rightarrow> int option \<Rightarrow> js_date" where
  "setMonth tz (Date t) (Some m) =
     (let lt = LocalTime tz t
      in TimeClip (UTC tz
           (MakeDate (MakeDay (YearFromTime lt) m (DateFromTime lt)) (TimeWithinDay lt))))"
| "setMonth tz _ _ = InvalidDate"

fun setFullYear :: "timezone \<Rightarrow> js_date \<Rightarrow> int option \<Rightarrow> js_date" where
  "setFullYear tz (Date t) (Some y) =
     (let lt = LocalTime tz t
      in TimeClip (UTC tz
           (MakeDate (MakeDay y (MonthFromTime lt) (DateFromTime lt)) (TimeWithinDay lt))))"
| "setFullYear tz InvalidDate (Some y) =
     TimeClip (UTC tz
       (MakeDate (MakeDay y (MonthFromTime 0) (DateFromTime 0)) (TimeWithinDay 0)))"
| "setFullYear tz _ None = InvalidDate"

section \<open>The recurrence date calculator\<close>

text \<open>
  \<^verbatim>\<open>
  function calculateNextRecurringDate(startDate, interval) {
    const date = new Date(startDate);
    if (interval === "DAILY") date.setDate(date.getDate() + 1);
    if (interval === "WEEKLY") date.setDate(date.getDate() + 7);
    if (interval === "MONTHLY") date.setMonth(date.getMonth() + 1);
    if (interval === "YEARLY") date.setFullYear(date.getFullYear() + 1);
    return date;
  }
  \<close>
  \<open>startDate\<close> is a Date, which \<^verbatim>\<open>new Date\<close> copies. \<open>interval\<close> is any string, or absent
  (\<open>None\<close>). The four tests run one after the other on the same mutable \<open>date\<close>. \<open>tz\<close>
  is the time zone of the host the function runs on.
\<close>

definition plus_nan :: "int option \<Rightarrow> int \<Rightarrow> int option" where
  "plus_nan x n = map_option (\<lambda>v. v + n) x"

definition calculateNextRecurringDate :: "timezone \<Rightarrow> js_date \<Rightarrow> string option \<Rightarrow> js_date" where
  "calculateNextRecurringDate tz startDate interval =
     (let date = startDate;
          date = (if interval = Some ''DAILY''
                  then setDate tz date (plus_nan (getDate tz date) 1) else date);
          date = (if interval = Some ''WEEKLY''
                  then setDate tz date (plus_nan (getDate tz date) 7) else date);
          date = (if interval = Some ''MONTHLY''
                  then setMonth tz date (plus_nan (getMonth tz date) 1) else date);
          date = (if interval = Some ''YEARLY''
                  then setFullYear tz date (plus_nan (getFullYear tz date) 1) else date)
      in date)"

section \<open>Data model\<close>

text \<open>
  The two enumerations of the database schema. \<open>interval_name\<close> is the string a
  \<open>RecurringInterval\<close> is in JavaScript, which is what the calculator compares.
\<close>

datatype TransactionType = INCOME | EXPENSE

datatype RecurringInterval = DAILY | WEEKLY | MONTHLY | YEARLY

fun interval_name :: "RecurringInterval \<Rightarrow> string" where
  "interval_name DAILY = ''DAILY''"
| "interval_name WEEKLY = ''WEEKLY''"
| "interval_name MONTHLY = ''MONTHLY''"
| "interval_name YEARLY = ''YEARLY''"

text \<open>
  Amounts and balances are decimals in the database and numbers in the handlers. An amount
  is the decimal of a finite number, so that \<^verbatim>\<open>toNumber()\<close> and the conversion of a number
  to a decimal are the identity on it; balances are sums of such decimals, which the database
  adds exactly.

  A key of \<^verbatim>\<open>data\<close> that may be left out is \<open>Absent\<close> (\<^verbatim>\<open>undefined\<close>), \<open>Null\<close>
  or \<open>Given\<close> a value. The persistence layer stores \<^verbatim>\<open>null\<close> for an absent key on create
  and leaves the column as it is on update. A stored row has \<open>Null\<close> or \<open>Given\<close>.
\<close>

datatype 'a optional_key = Absent | Null | Given 'a

record user =
  user_id :: string
  clerkUserId :: string

record account =
  account_id :: string
  account_userId :: string
  balance :: rat

text \<open>
  \<open>txn_data\<close> is the \<^verbatim>\<open>data\<close> argument of create and update, with the fields the handlers
  read (description, category and the like are copied through unread and left out). The
  recurrence interval is the one key that may be left out. A stored transaction is
  \<^verbatim>\<open>{...data, userId, nextRecurringDate}\<close> plus its primary key.
\<close>

record txn_data =
  accountId :: string
  type :: TransactionType
  amount :: rat
  date :: js_date
  isRecurring :: bool
  recurringInterval :: "RecurringInterval optional_key"

record transaction = txn_data +
  txn_id :: string
  userId :: string
  nextRecurringDate :: "js_date option"

text \<open>
  The state the handlers act on: the three tables, and the paths passed to
  \<^verbatim>\<open>revalidatePath\<close> so far.
\<close>

record state =
  users :: "user list"
  accounts :: "account list"
  transactions :: "transaction list"
  revalidated :: "string list"

text \<open>
  What the surroundings answer during one call: the identity provider's \<^verbatim>\<open>userId\<close>
  (absent when nobody is signed in), the decision of the abuse limiter, the primary key
  the database generates for a new row, and the time zone of the host.
\<close>

datatype ArcjetDecision = Allowed | DeniedRateLimit | DeniedOther

record env =
  auth_userId :: "string option"
  decision :: ArcjetDecision
  generated_id :: string
  host_timezone :: timezone

text \<open>
  A JavaScript call either returns a value or throws an \<^verbatim>\<open>Error\<close> with a message. The
  handlers with a \<^verbatim>\<open>try/catch\<close> return \<^verbatim>\<open>{success: true, data}\<close> or
  \<^verbatim>\<open>{success: false, error}\<close>.
\<close>

datatype 'a outcome = Returns 'a | Throws string

datatype 'a result = Success 'a | Failure string

section \<open>The persistence collaborator\<close>

definition user_findUnique :: "state \<Rightarrow> string \<Rightarrow> user option" where
  "user_findUnique st clerk = find (\<lambda>u. clerkUserId u = clerk) (users st)"

definition account_findUnique :: "state \<Rightarrow> string \<Rightarrow> string \<Rightarrow> account option" where
  "account_findUnique st aid uid =
     find (\<lambda>a. account_id a = aid \<and> account_userId a = uid) (accounts st)"

definition transaction_findUnique :: "state \<Rightarrow> string \<Rightarrow> string \<Rightarrow> transaction option" where
  "transaction_findUnique st tid uid =
     find (\<lambda>t. txn_id t = tid \<and> userId t = uid) (transactions st)"

text \<open>
  The writes. Each returns its outcome together with the state it leaves behind. An insert
  with a primary key already in use throws; an update throws when no row matches its
  \<^verbatim>\<open>where\<close>, and when the number to increment by is an infinity or NaN, which is no
  decimal.
\<close>

definition transaction_create :: "transaction \<Rightarrow> state \<Rightarrow> transaction outcome \<times> state" where
  "transaction_create row st =
     (if txn_id row \<in> set (map txn_id (transactions st))
      then (Throws ''Unique constraint failed'', st)
      else (Returns row, st\<lparr>transactions := transactions st @ [row]\<rparr>))"

definition rewrite_row ::
  "string \<Rightarrow> string \<Rightarrow> (transaction \<Rightarrow> transaction) \<Rightarrow> transaction \<Rightarrow> transaction" where
  "rewrite_row tid uid f r = (if txn_id r = tid \<and> userId r = uid then f r else r)"

definition transaction_update ::
  "string \<Rightarrow> string \<Rightarrow> (transaction \<Rightarrow> transaction) \<Rightarrow> state \<Rightarrow> transaction outcome \<times> state" where
  "transaction_update tid uid f st =
     (case transaction_findUnique st tid uid of
        None \<Rightarrow> (Throws ''Record to update not found'', st)
      | Some t \<Rightarrow>
          (Returns (f t), st\<lparr>transactions := map (rewrite_row tid uid f) (transactions st)\<rparr>))"

definition increment_balance :: "string \<Rightarrow> rat \<Rightarrow> account \<Rightarrow> account" where
  "increment_balance aid inc a =
     (if account_id a = aid then a\<lparr>balance := balance a + inc\<rparr> else a)"

definition account_update_increment ::
  "string \<Rightarrow> js_number \<Rightarrow> state \<Rightarrow> unit outcome \<times> state" where
  "account_update_increment aid increment st =
     (case increment of
        None \<Rightarrow> (Throws ''Invalid value provided'', st)
      | Some inc \<Rightarrow>
          if list_ex (\<lambda>a. account_id a = aid) (accounts st)
          then (Returns (), st\<lparr>accounts := map (increment_balance aid inc) (accounts st)\<rparr>)
          else (Throws ''Record to update not found'', st))"

text \<open>
  \<^verbatim>\<open>db.$transaction(callback)\<close>: the callback's writes are kept when it returns and
  discarded when it throws.
\<close>

definition db_transaction :: "(state \<Rightarrow> 'a outcome \<times> state) \<Rightarrow> state \<Rightarrow> 'a outcome \<times> state" where
  "db_transaction callback st =
     (case callback st of
        (Returns v, st') \<Rightarrow> (Returns v, st')
      | (Throws m, _) \<Rightarrow> (Throws m, st))"

definition revalidatePath :: "string \<Rightarrow> state \<Rightarrow> state" where
  "revalidatePath p st = st\<lparr>revalidated := revalidated st @ [p]\<rparr>"

definition serializeAmount :: "transaction \<Rightarrow> transaction" where
  "serializeAmount obj = obj\<lparr>amount := amount obj\<rparr>"

section \<open>The request handlers\<close>

text \<open>
  The signed balance contributions, as the handlers compute them:
  \<^verbatim>\<open>
  const balanceChange = data.type === "EXPENSE" ? -data.amount : data.amount;
  const oldChange = original.type === "EXPENSE"
      ? -original.amount.toNumber() : original.amount.toNumber();
  const newChange = data.type === "EXPENSE" ? -data.amount : data.amount;
  const netChange = newChange - oldChange;
  \<close>
  The conditional negations are exact. The subtraction is the platform's, on numbers.
\<close>

definition balanceChange :: "txn_data \<Rightarrow> rat" where
  "balanceChange data = (if type data = EXPENSE then - amount data else amount data)"

definition oldChange :: "transaction \<Rightarrow> rat" where
  "oldChange original = (if type original = EXPENSE then - amount original else amount original)"

definition newChange :: "txn_data \<Rightarrow> rat" where
  "newChange data = (if type data = EXPENSE then - amount data else amount data)"

definition netChange :: "transaction \<Rightarrow> txn_data \<Rightarrow> js_number" where
  "netChange original data = js_minus (newChange data) (oldChange original)"

text \<open>
  \<^verbatim>\<open>
  nextRecurringDate:
    data.isRecurring && data.recurringInterval
      ? calculateNextRecurringDate(data.date, data.recurringInterval)
      : null
  \<close>
  Every value of the enumeration is a non-empty string, hence truthy; \<^verbatim>\<open>undefined\<close> and
  \<^verbatim>\<open>null\<close> are falsy. The result \<open>None\<close> is \<^verbatim>\<open>null\<close>.
\<close>

fun truthy :: "'a optional_key \<Rightarrow> bool" where
  "truthy (Given v) = True"
| "truthy _ = False"

fun interval_string :: "RecurringInterval optional_key \<Rightarrow> string option" where
  "interval_string (Given i) = Some (interval_name i)"
| "interval_string _ = None"

definition nextRecurringDate_of :: "timezone \<Rightarrow> txn_data \<Rightarrow> js_date option" where
  "nextRecurringDate_of tz data =
     (if isRecurring data \<and> truthy (recurringInterval data)
      then Some (calculateNextRecurringDate tz (date data)
                   (interval_string (recurringInterval data)))
      else None)"

text \<open>
  The row \<^verbatim>\<open>{...data, userId: user.id, nextRecurringDate: ...}\<close> that create inserts. An
  absent interval is stored as \<^verbatim>\<open>null\<close>.
\<close>

definition created_row :: "timezone \<Rightarrow> string \<Rightarrow> string \<Rightarrow> txn_data \<Rightarrow> transaction" where
  "created_row tz tid uid data =
     \<lparr>accountId = accountId data, type = type data, amount = amount data, date = date data,
      isRecurring = isRecurring data,
      recurringInterval = (case recurringInterval data of Absent \<Rightarrow> Null | k \<Rightarrow> k),
      txn_id = tid, userId = uid, nextRecurringDate = nextRecurringDate_of tz data\<rparr>"

text \<open>
  The row after update has written \<^verbatim>\<open>{...data, nextRecurringDate: ...}\<close> over it. An
  absent interval leaves the stored interval as it is; the next-recurrence date is always
  written.
\<close>

definition updated_row :: "timezone \<Rightarrow> txn_data \<Rightarrow> transaction \<Rightarrow> transaction" where
  "updated_row tz data r =
     r\<lparr>accountId := accountId data, type := type data, amount := amount data,
       date := date data, isRecurring := isRecurring data,
       recurringInterval :=
         (case recurringInterval data of Absent \<Rightarrow> recurringInterval r | k \<Rightarrow> k),
       nextRecurringDate := nextRecurringDate_of tz data\<rparr>"

text \<open>
  The body of the \<^verbatim>\<open>try\<close> block of \<^verbatim>\<open>createTransaction\<close>. \<^verbatim>\<open>!userId\<close> holds for an
  absent identity and for the empty string.
\<close>

definition createTransaction_try :: "env \<Rightarrow> txn_data \<Rightarrow> state \<Rightarrow> transaction outcome \<times> state" where
  "createTransaction_try e data st =
     (case auth_userId e of
        None \<Rightarrow> (Throws ''Unauthorized'', st)
      | Some clerk \<Rightarrow>
          if clerk = [] then (Throws ''Unauthorized'', st)
          else
            (case decision e of
               DeniedRateLimit \<Rightarrow> (Throws ''Too many requests. Please try again later.'', st)
             | DeniedOther \<Rightarrow> (Throws ''Request blocked'', st)
             | Allowed \<Rightarrow>
                 (case user_findUnique st clerk of
                    None \<Rightarrow> (Throws ''User not found'', st)
                  | Some user \<Rightarrow>
                      (case account_findUnique st (accountId data) (user_id user) of
                         None \<Rightarrow> (Throws ''Account not found'', st)
                       | Some account \<Rightarrow>
                           (case db_transaction
                                   (\<lambda>tx.
                                      case transaction_create
                                             (created_row (host_timezone e) (generated_id e)
                                                (user_id user) data) tx of
                                        (Throws m, tx1) \<Rightarrow> (Throws m, tx1)
                                      | (Returns created, tx1) \<Rightarrow>
                                          (case account_update_increment (accountId data)
                                                  (Some (balanceChange data)) tx1 of
                                             (Throws m, tx2) \<Rightarrow> (Throws m, tx2)
                                           | (Returns _, tx2) \<Rightarrow> (Returns created, tx2)))
                                   st of
                              (Throws m, st1) \<Rightarrow> (Throws m, st1)
                            | (Returns transaction, st1) \<Rightarrow>
                                (Returns transaction,
                                 revalidatePath (''/account/'' @ accountId transaction)
                                   (revalidatePath ''/dashboard'' st1)))))))"

text \<open>
  \<^verbatim>\<open>createTransaction\<close>: the \<^verbatim>\<open>try\<close> block, and the \<^verbatim>\<open>catch\<close> that turns a thrown error
  into \<^verbatim>\<open>{success: false, error: error.message}\<close>.
\<close>

definition createTransaction ::
  "env \<Rightarrow> txn_data \<Rightarrow> state \<Rightarrow> transaction result outcome \<times> state" where
  "createTransaction e data st =
     (case createTransaction_try e data st of
        (Returns transaction, st') \<Rightarrow> (Returns (Success (serializeAmount transaction)), st')
      | (Throws m, st') \<Rightarrow> (Returns (Failure m), st'))"

text \<open>\<^verbatim>\<open>getTransaction\<close> has no \<^verbatim>\<open>try/catch\<close>; it reads and writes nothing.\<close>

definition getTransaction :: "env \<Rightarrow> string \<Rightarrow> state \<Rightarrow> transaction outcome" where
  "getTransaction e tid st =
     (case auth_userId e of
        None \<Rightarrow> Throws ''Unauthorized''
      | Some clerk \<Rightarrow>
          if clerk = [] then Throws ''Unauthorized''
          else
            (case user_findUnique st clerk of
               None \<Rightarrow> Throws ''User not found''
             | Some user \<Rightarrow>
                 (case transaction_findUnique st tid (user_id user) of
                    None \<Rightarrow> Throws ''Transaction not found''
                  | Some transaction \<Rightarrow> Returns (serializeAmount transaction))))"

text \<open>
  The body of the \<^verbatim>\<open>try\<close> block of \<^verbatim>\<open>updateTransaction\<close>. The account whose balance
  is incremented is \<^verbatim>\<open>data.accountId\<close>; it is looked up by nothing but the increment
  itself.
\<close>

definition updateTransaction_try ::
  "env \<Rightarrow> string \<Rightarrow> txn_data \<Rightarrow> state \<Rightarrow> transaction outcome \<times> state" where
  "updateTransaction_try e tid data st =
     (case auth_userId e of
        None \<Rightarrow> (Throws ''Unauthorized'', st)
      | Some clerk \<Rightarrow>
          if clerk = [] then (Throws ''Unauthorized'', st)
          else
            (case user_findUnique st clerk of
               None \<Rightarrow> (Throws ''User not found'', st)
             | Some user \<Rightarrow>
                 (case transaction_findUnique st tid (user_id user) of
                    None \<Rightarrow> (Throws ''Transaction not found'', st)
                  | Some original \<Rightarrow>
                      (case db_transaction
                              (\<lambda>tx.
                                 case transaction_update tid (user_id user)
                                        (updated_row (host_timezone e) data) tx of
                                   (Throws m, tx1) \<Rightarrow> (Throws m, tx1)
                                 | (Returns txUpdated, tx1) \<Rightarrow>
                                     (case account_update_increment (accountId data)
                                             (netChange original data) tx1 of
                                        (Throws m, tx2) \<Rightarrow> (Throws m, tx2)
                                      | (Returns _, tx2) \<Rightarrow> (Returns txUpdated, tx2)))
                              st of
                         (Throws m, st1) \<Rightarrow> (Throws m, st1)
                       | (Returns updated, st1) \<Rightarrow>
                           (Returns updated,
                            revalidatePath (''/account/'' @ accountId data)
                              (revalidatePath ''/dashboard'' st1))))))"

definition updateTransaction ::
  "env \<Rightarrow> string \<Rightarrow> txn_data \<Rightarrow> state \<Rightarrow> transaction result outcome \<times> state" where
  "updateTransaction e tid data st =
     (case updateTransaction_try e tid data st of
        (Returns updated, st') \<Rightarrow> (Returns (Success (serializeAmount updated)), st')
      | (Throws m, st') \<Rightarrow> (Returns (Failure m), st'))"

text \<open>
  \<^verbatim>\<open>getUserTransactions(query)\<close>: \<^verbatim>\<open>where: {userId: user.id, ...query}\<close>, so a key of
  \<open>query\<close> replaces the one before it; each row comes with its account
  (\<^verbatim>\<open>include: {account: true}\<close>), newest date first.
\<close>

record txn_query =
  q_userId :: "string option"
  q_accountId :: "string option"
  q_type :: "TransactionType option"

definition query_matches :: "string \<Rightarrow> txn_query \<Rightarrow> transaction \<Rightarrow> bool" where
  "query_matches uid q t \<longleftrightarrow>
     userId t = (case q_userId q of Some u \<Rightarrow> u | None \<Rightarrow> uid) \<and>
     (case q_accountId q of Some a \<Rightarrow> accountId t = a | None \<Rightarrow> True) \<and>
     (case q_type q of Some ty \<Rightarrow> type t = ty | None \<Rightarrow> True)"

fun date_desc_key :: "js_date \<Rightarrow> int" where
  "date_desc_key (Date t) = - t"
| "date_desc_key InvalidDate = 0"

definition getUserTransactions_try ::
  "env \<Rightarrow> txn_query \<Rightarrow> state \<Rightarrow> (transaction \<times> account option) list outcome" where
  "getUserTransactions_try e query st =
     (case auth_userId e of
        None \<Rightarrow> Throws ''Unauthorized''
      | Some clerk \<Rightarrow>
          if clerk = [] then Throws ''Unauthorized''
          else
            (case user_findUnique st clerk of
               None \<Rightarrow> Throws ''User not found''
             | Some user \<Rightarrow>
                 Returns
                   (map (\<lambda>t. (serializeAmount t,
                              find (\<lambda>a. account_id a = accountId t) (accounts st)))
                      (sort_key (\<lambda>t. date_desc_key (date t))
                         (filter (query_matches (user_id user) query) (transactions st))))))"

definition getUserTransactions ::
  "env \<Rightarrow> txn_query \<Rightarrow> state \<Rightarrow> (transaction \<times> account option) list result outcome" where
  "getUserTransactions e query st =
     (case getUserTransactions_try e query st of
        Returns rows \<Rightarrow> Returns (Success rows)
      | Throws m \<Rightarrow> Returns (Failure m))"

section \<open>The properties of the specification\<close>

text \<open>
  The specification's \<open>signedAmount\<close> (its section 4.1): "+amount if type = INCOME else
  -amount". The source has no function of this name; it computes the value inline, as
  \<open>balanceChange\<close>, \<open>oldChange\<close> and \<open>newChange\<close> above.
\<close>

definition signedAmount :: "TransactionType \<Rightarrow> rat \<Rightarrow> rat" where
  "signedAmount t a = (if t = INCOME then a else - a)"

text \<open>The specification's \<open>advance\<close>: the calculator on a value of the enumeration.\<close>

definition advance :: "timezone \<Rightarrow> js_date \<Rightarrow> RecurringInterval \<Rightarrow> js_date" where
  "advance tz d i = calculateNextRecurringDate tz d (Some (interval_name i))"

text \<open>
  The instant \<open>n\<close> days after \<open>t\<close> on the local calendar of the host, at the same local time
  of day: the local time is moved by \<open>n\<close> whole days and taken back to UTC.
\<close>

definition days_later :: "timezone \<Rightarrow> int \<Rightarrow> int \<Rightarrow> int" where
  "days_later tz t n = UTC tz (LocalTime tz t + n * msPerDay)"

text \<open>The stored balance of the account with a given identifier.\<close>

definition account_balance :: "state \<Rightarrow> string \<Rightarrow> rat option" where
  "account_balance st aid = map_option balance (find (\<lambda>a. account_id a = aid) (accounts st))"

text \<open>
  The balance invariant of the specification's data model: every account's stored balance
  is the sum of the signed amounts of the transactions stored for it.
\<close>

definition account_sum :: "transaction list \<Rightarrow> string \<Rightarrow> rat" where
  "account_sum ts aid =
     sum_list (map (\<lambda>t. signedAmount (type t) (amount t)) (filter (\<lambda>t. accountId t = aid) ts))"

definition balance_consistent :: "state \<Rightarrow> bool" where
  "balance_consistent st \<longleftrightarrow>
     list_all (\<lambda>a. balance a = account_sum (transactions st) (account_id a)) (accounts st)"

text \<open>
  The recurrence invariant of the specification's data model: flag true iff interval
  present iff next-recurrence date present, and then equal to \<open>advance date interval\<close>.
\<close>

definition recurrence_consistent :: "timezone \<Rightarrow> transaction \<Rightarrow> bool" where
  "recurrence_consistent tz t \<longleftrightarrow>
     (isRecurring t \<longleftrightarrow> truthy (recurringInterval t)) \<and>
     (truthy (recurringInterval t) \<longleftrightarrow> nextRecurringDate t \<noteq> None) \<and>
     (case (recurringInterval t, nextRecurringDate t) of
        (Given i, Some d) \<Rightarrow> d = advance tz (date t) i
      | _ \<Rightarrow> True)"

text \<open>Primary keys are unique.\<close>

definition keys_unique :: "state \<Rightarrow> bool" where
  "keys_unique st \<longleftrightarrow> distinct (map txn_id (transactions st))"

subsection \<open>A small database\<close>

text \<open>
  Two users. Alice owns accounts A and C, Bob owns account B. Account A holds an income of
  100 and an expense of 30, so every balance agrees with its transactions. The host runs
  in UTC.
\<close>

definition utc_zone :: timezone where
  "utc_zone = \<lparr>utc_offset = (\<lambda>t. 0), local_offset = (\<lambda>t. 0)\<rparr>"

definition jan15 :: js_date where
  "jan15 = Date 1705276800000"

definition jan31 :: js_date where
  "jan31 = Date 1706659200000"

definition alice :: user where
  "alice = \<lparr>user_id = ''u1'', clerkUserId = ''clerk_alice''\<rparr>"

definition bob :: user where
  "bob = \<lparr>user_id = ''u2'', clerkUserId = ''clerk_bob''\<rparr>"

definition salary :: transaction where
  "salary =
     \<lparr>accountId = ''A'', type = INCOME, amount = 100, date = jan15, isRecurring = False,
      recurringInterval = Null, txn_id = ''t0'', userId = ''u1'', nextRecurringDate = None\<rparr>"

definition lunch :: transaction where
  "lunch =
     \<lparr>accountId = ''A'', type = EXPENSE, amount = 30, date = jan15, isRecurring = False,
      recurringInterval = Null, txn_id = ''t1'', userId = ''u1'', nextRecurringDate = None\<rparr>"

definition shop :: state where
  "shop =
     \<lparr>users = [alice, bob],
      accounts =
        [\<lparr>account_id = ''A'', account_userId = ''u1'', balance = 70\<rparr>,
         \<lparr>account_id = ''C'', account_userId = ''u1'', balance = 0\<rparr>,
         \<lparr>account_id = ''B'', account_userId = ''u2'', balance = 0\<rparr>],
      transactions = [salary, lunch],
      revalidated = []\<rparr>"

definition as_alice :: env where
  "as_alice =
     \<lparr>auth_userId = Some ''clerk_alice'', decision = Allowed, generated_id = ''t2'',
      host_timezone = utc_zone\<rparr>"

definition signed_out :: env where
  "signed_out =
     \<lparr>auth_userId = None, decision = Allowed, generated_id = ''t2'',
      host_timezone = utc_zone\<rparr>"

definition as_stranger :: env where
  "as_stranger =
     \<lparr>auth_userId = Some ''clerk_carol'', decision = Allowed, generated_id = ''t2'',
      host_timezone = utc_zone\<rparr>"

text \<open>The argument of a call: an entry of the given type and amount on the given account.\<close>

definition entry :: "string \<Rightarrow> TransactionType \<Rightarrow> rat \<Rightarrow> txn_data" where
  "entry aid ty a =
     \<lparr>accountId = aid, type = ty, amount = a, date = jan15, isRecurring = False,
      recurringInterval = Absent\<rparr>"

text \<open>The row that Alice's purchase of 30 on account A creates.\<close>

definition purchase :: transaction where
  "purchase =
     \<lparr>accountId = ''A'', type = EXPENSE, amount = 30, date = jan15, isRecurring = False,
      recurringInterval = Null, txn_id = ''t2'', userId = ''u1'', nextRecurringDate = None\<rparr>"

text \<open>A monthly standing order, and a caller the abuse limiter turns away.\<close>

definition rent :: txn_data where
  "rent =
     \<lparr>accountId = ''A'', type = EXPENSE, amount = 30, date = jan15, isRecurring = True,
      recurringInterval = Given MONTHLY\<rparr>"

definition rate_limited :: env where
  "rate_limited =
     \<lparr>auth_userId = Some ''clerk_alice'', decision = DeniedRateLimit, generated_id = ''t2'',
      host_timezone = utc_zone\<rparr>"

text \<open>
  The database after Alice's rent has been created: the row has the flag, the interval
  and the next-recurrence date 2024-02-15, and account A holds 40.
\<close>

definition rent_row :: transaction where
  "rent_row =
     \<lparr>accountId = ''A'', type = EXPENSE, amount = 30, date = jan15, isRecurring = True,
      recurringInterval = Given MONTHLY, txn_id = ''t2'', userId = ''u1'',
      nextRecurringDate = Some (Date 1707955200000)\<rparr>"

definition shop_with_rent :: state where
  "shop_with_rent =
     \<lparr>users = [alice, bob],
      accounts =
        [\<lparr>account_id = ''A'', account_userId = ''u1'', balance = 40\<rparr>,
         \<lparr>account_id = ''C'', account_userId = ''u1'', balance = 0\<rparr>,
         \<lparr>account_id = ''B'', account_userId = ''u2'', balance = 0\<rparr>],
      transactions = [salary, lunch, rent_row],
      revalidated = [''/dashboard'', ''/account/A'']\<rparr>"

text \<open>
  A second database: Alice's account A holds one expense of 0.1, a coffee, and so has
  balance -0.1.
\<close>

definition coffee :: transaction where
  "coffee =
     \<lparr>accountId = ''A'', type = EXPENSE, amount = 1 / 10, date = jan15, isRecurring = False,
      recurringInterval = Null, txn_id = ''t0'', userId = ''u1'', nextRecurringDate = None\<rparr>"

definition cafe :: state where
  "cafe =
     \<lparr>users = [alice],
      accounts = [\<lparr>account_id = ''A'', account_userId = ''u1'', balance = - (1 / 10)\<rparr>],
      transactions = [coffee],
      revalidated = []\<rparr>"

text \<open>
  A host on the east coast of North America in the spring of 2024: local time is five
  hours behind UTC until 2024-03-10T07:00:00Z and four hours behind from then on. The
  local times from 02:00 to 03:00 of that day do not exist; the platform reads them with
  the offset before the change.
\<close>

definition eastern_zone :: timezone where
  "eastern_zone =
     \<lparr>utc_offset = (\<lambda>t. if t < 1710054000000 then - 18000000 else - 14400000),
      local_offset = (\<lambda>t. if t < 1710039600000 then - 18000000 else - 14400000)\<rparr>"

section \<open>The calendar\<close>

text \<open>
  \<open>YearFromTime\<close> meets its ECMA-262 definition: the year it returns starts on or before
  the day of \<open>t\<close>, and the next year starts after it.
\<close>

lemma DayFromYear_400:
  "400 * DayFromYear y =
     146097 * (y - 1970) + 193 - 100 * ((y - 1969) mod 4) + 4 * ((y - 1901) mod 100)
       - (y - 1601) mod 400"
proof -
  have a: "4 * ((y - 1969) div 4) = (y - 1969) - (y - 1969) mod 4"
    by (simp add: minus_mod_eq_mult_div)
  have b: "100 * ((y - 1901) div 100) = (y - 1901) - (y - 1901) mod 100"
    by (simp add: minus_mod_eq_mult_div)
  have c: "400 * ((y - 1601) div 400) = (y - 1601) - (y - 1601) mod 400"
    by (simp add: minus_mod_eq_mult_div)
  have "400 * DayFromYear y =
      146000 * (y - 1970) + 100 * (4 * ((y - 1969) div 4)) - 4 * (100 * ((y - 1901) div 100))
        + 400 * ((y - 1601) div 400)"
    by (simp add: DayFromYear_def algebra_simps)
  also have "\<dots> = 146097 * (y - 1970) + 193 - 100 * ((y - 1969) mod 4)
        + 4 * ((y - 1901) mod 100) - (y - 1601) mod 400"
    unfolding a b c by (simp add: algebra_simps)
  finally show ?thesis .
qed

lemma DayFromYear_est_lo: "146097 * (y - 1970) - 506 \<le> 400 * DayFromYear y"
proof -
  have "(y - 1969) mod 4 \<le> 3" "0 \<le> (y - 1901) mod 100" "(y - 1601) mod 400 \<le> 399"
    using pos_mod_bound[of 4 "y - 1969"] pos_mod_sign[of 100 "y - 1901"]
      pos_mod_bound[of 400 "y - 1601"] by simp_all
  then show ?thesis unfolding DayFromYear_400 by simp
qed

lemma DayFromYear_est_hi: "400 * DayFromYear y \<le> 146097 * (y - 1970) + 589"
proof -
  have "0 \<le> (y - 1969) mod 4" "(y - 1901) mod 100 \<le> 99" "0 \<le> (y - 1601) mod 400"
    using pos_mod_sign[of 4 "y - 1969"] pos_mod_bound[of 100 "y - 1901"]
      pos_mod_sign[of 400 "y - 1601"] by simp_all
  then show ?thesis unfolding DayFromYear_400 by simp
qed

lemma YearFromTime_lower: "DayFromYear (YearFromTime t) \<le> Day t"
proof -
  define d where "d = Day t"
  define y0 where "y0 = 1970 + (400 * d) div 146097"
  have "146097 * ((400 * d) div 146097) \<le> 400 * d"
    using pos_mod_sign[of 146097 "400 * d"] by (simp add: minus_mod_eq_mult_div [symmetric])
  then have a: "146097 * (y0 - 1970) \<le> 400 * d"
    by (simp add: y0_def)
  have "400 * DayFromYear (y0 - 1) \<le> 400 * d"
    using DayFromYear_est_hi[of "y0 - 1"] a by (simp add: algebra_simps)
  then have "DayFromYear (y0 - 1) \<le> d" by simp
  then show ?thesis
    unfolding YearFromTime_def Let_def d_def[symmetric] y0_def[symmetric]
    by auto
qed

lemma YearFromTime_upper: "Day t < DayFromYear (YearFromTime t + 1)"
proof -
  define d where "d = Day t"
  define y0 where "y0 = 1970 + (400 * d) div 146097"
  have "400 * d < 146097 * ((400 * d) div 146097) + 146097"
    using pos_mod_bound[of 146097 "400 * d"] by (simp add: minus_mod_eq_mult_div [symmetric])
  then have a: "400 * d < 146097 * (y0 - 1970) + 146097"
    by (simp add: y0_def)
  have "400 * d < 400 * DayFromYear (y0 + 2)"
    using DayFromYear_est_lo[of "y0 + 2"] a by (simp add: algebra_simps)
  then have "d < DayFromYear (y0 + 2)" by simp
  then show ?thesis
    unfolding YearFromTime_def Let_def d_def[symmetric] y0_def[symmetric]
    by (auto simp: ac_simps)
qed

text \<open>
  Rebuilding the day from the year and month of \<open>t\<close> and its day of the month plus \<open>n\<close>
  gives the day of \<open>t\<close> plus \<open>n\<close>: this is \<^verbatim>\<open>date.setDate(date.getDate() + n)\<close>.
\<close>

lemma DateFromTime_MakeDay:
  "MakeDay (YearFromTime t) (MonthFromTime t) (DateFromTime t + n) = Day t + n"
  unfolding MakeDay_def DateFromTime_def DayWithinYear_def InLeapYear_def
  by (simp add: MonthFromTime_def Let_def)

lemma setDate_getDate_plus:
  "setDate tz (Date t) (plus_nan (getDate tz (Date t)) n) = TimeClip (days_later tz t n)"
proof -
  have "MakeDate (Day lt + n) (TimeWithinDay lt) = lt + n * msPerDay" for lt
    by (simp add: MakeDate_def Day_def TimeWithinDay_def algebra_simps)
  then show ?thesis
    by (simp add: plus_nan_def DateFromTime_MakeDay days_later_def Let_def)
qed

lemma Day_plus: "Day (t + n * msPerDay) = Day t + n"
  by (simp add: Day_def msPerDay_def)

lemma TimeWithinDay_plus: "TimeWithinDay (t + n * msPerDay) = TimeWithinDay t"
  by (simp add: TimeWithinDay_def msPerDay_def)

lemma TimeClip_in_range: "\<bar>x\<bar> \<le> maxTime \<Longrightarrow> TimeClip x = Date x"
  by (simp add: TimeClip_def)

lemma TimeClip_out_of_range: "maxTime < \<bar>x\<bar> \<Longrightarrow> TimeClip x = InvalidDate"
  by (simp add: TimeClip_def)

lemma calculateNextRecurringDate_DAILY:
  "calculateNextRecurringDate tz (Date t) (Some ''DAILY'') = TimeClip (days_later tz t 1)"
  unfolding calculateNextRecurringDate_def Let_def setDate_getDate_plus[symmetric] by simp

lemma calculateNextRecurringDate_WEEKLY:
  "calculateNextRecurringDate tz (Date t) (Some ''WEEKLY'') = TimeClip (days_later tz t 7)"
  unfolding calculateNextRecurringDate_def Let_def setDate_getDate_plus[symmetric] by simp

lemma days_later_fixed_offset:
  assumes "\<forall>x. utc_offset tz x = c" and "\<forall>x. local_offset tz x = c"
  shows "days_later tz t n = t + n * msPerDay"
  using assms by (simp add: days_later_def LocalTime_def UTC_def)

section \<open>Signed amounts\<close>

text \<open>
  Claim C7. The signed amount of an income is its amount and that of an expense is the
  negated amount, and each of the three balance-change expressions of the create and update
  paths computes the signed amount of the type and amount it is given.
\<close>

theorem signedAmount_balance_changes:
  "signedAmount INCOME a = a \<and> signedAmount EXPENSE a = - a \<and>
   balanceChange data = signedAmount (type data) (amount data) \<and>
   newChange data = signedAmount (type data) (amount data) \<and>
   oldChange original = signedAmount (type original) (amount original)"
  by (cases "type data"; cases "type original")
     (simp_all add: signedAmount_def balanceChange_def newChange_def oldChange_def)

section \<open>Daily and weekly recurrence\<close>

text \<open>
  Claim C8, as the code has it. For every date with time value \<open>t\<close>, on a host with time
  zone \<open>tz\<close>, a DAILY (WEEKLY) interval aims at the instant \<open>days_later tz t n\<close> with
  \<open>n = 1\<close> (\<open>n = 7\<close>): \<open>n\<close> days later on the local calendar at the same local time of day.
  If that instant is in the range of the platform, it is the result; if it is outside,
  the result is an Invalid Date. Whenever the local time aimed at exists on the host, the
  local day number of the result is that of \<open>t\<close> plus \<open>n\<close> and the local time within the
  day is the same, whatever the month or year. On a host with a fixed offset from UTC the
  time value grows by exactly \<open>n\<close> times 86400000 ms.
\<close>

theorem advance_DAILY_WEEKLY:
  "(\<bar>days_later tz t 1\<bar> \<le> maxTime \<longrightarrow>
      calculateNextRecurringDate tz (Date t) (Some ''DAILY'') = Date (days_later tz t 1)) \<and>
   (maxTime < \<bar>days_later tz t 1\<bar> \<longrightarrow>
      calculateNextRecurringDate tz (Date t) (Some ''DAILY'') = InvalidDate) \<and>
   (\<bar>days_later tz t 7\<bar> \<le> maxTime \<longrightarrow>
      calculateNextRecurringDate tz (Date t) (Some ''WEEKLY'') = Date (days_later tz t 7)) \<and>
   (maxTime < \<bar>days_later tz t 7\<bar> \<longrightarrow>
      calculateNextRecurringDate tz (Date t) (Some ''WEEKLY'') = InvalidDate) \<and>
   (LocalTime tz (days_later tz t n) = LocalTime tz t + n * msPerDay \<longrightarrow>
      Day (LocalTime tz (days_later tz t n)) = Day (LocalTime tz t) + n \<and>
      TimeWithinDay (LocalTime tz (days_later tz t n)) = TimeWithinDay (LocalTime tz t)) \<and>
   ((\<forall>x. utc_offset tz x = c) \<and> (\<forall>x. local_offset tz x = c) \<longrightarrow>
      days_later tz t n = t + n * msPerDay \<and>
      LocalTime tz (days_later tz t n) = LocalTime tz t + n * msPerDay)"
proof (intro conjI impI)
  assume "\<bar>days_later tz t 1\<bar> \<le> maxTime"
  then show "calculateNextRecurringDate tz (Date t) (Some ''DAILY'') = Date (days_later tz t 1)"
    by (simp add: calculateNextRecurringDate_DAILY TimeClip_in_range)
next
  assume "maxTime < \<bar>days_later tz t 1\<bar>"
  then show "calculateNextRecurringDate tz (Date t) (Some ''DAILY'') = InvalidDate"
    by (simp add: calculateNextRecurringDate_DAILY TimeClip_out_of_range)
next
  assume "\<bar>days_later tz t 7\<bar> \<le> maxTime"
  then show "calculateNextRecurringDate tz (Date t) (Some ''WEEKLY'') = Date (days_later tz t 7)"
    by (simp add: calculateNextRecurringDate_WEEKLY TimeClip_in_range)
next
  assume "maxTime < \<bar>days_later tz t 7\<bar>"
  then show "calculateNextRecurringDate tz (Date t) (Some ''WEEKLY'') = InvalidDate"
    by (simp add: calculateNextRecurringDate_WEEKLY TimeClip_out_of_range)
next
  assume a: "LocalTime tz (days_later tz t n) = LocalTime tz t + n * msPerDay"
  show "Day (LocalTime tz (days_later tz t n)) = Day (LocalTime tz t) + n"
    unfolding a by (rule Day_plus)
  show "TimeWithinDay (LocalTime tz (days_later tz t n)) = TimeWithinDay (LocalTime tz t)"
    unfolding a by (rule TimeWithinDay_plus)
next
  assume a: "(\<forall>x. utc_offset tz x = c) \<and> (\<forall>x. local_offset tz x = c)"
  then show d: "days_later tz t n = t + n * msPerDay"
    using days_later_fixed_offset [of tz c t n] by blast
  from a show "LocalTime tz (days_later tz t n) = LocalTime tz t + n * msPerDay"
    unfolding d by (simp add: LocalTime_def)
qed

text \<open>
  On a host in UTC, from 2024-01-31 (time value 1706659200000) a DAILY interval leads to
  2024-02-01 and a WEEKLY one to 2024-02-07; months are numbered from 0. On the east
  coast host, from noon of 2024-03-09 local time (17:00 UTC) a DAILY interval leads to
  noon of 2024-03-10 local time (16:00 UTC): one day later on the local calendar, 23 hours
  later in time.
\<close>

theorem advance_DAILY_WEEKLY_jan31:
  "days_later utc_zone 1706659200000 1 = 1706745600000 \<and>
   days_later utc_zone 1706659200000 7 = 1707264000000 \<and>
   \<bar>1707264000000\<bar> \<le> maxTime \<and>
   YearFromTime 1706659200000 = 2024 \<and> MonthFromTime 1706659200000 = 0 \<and>
   DateFromTime 1706659200000 = 31 \<and>
   calculateNextRecurringDate utc_zone (Date 1706659200000) (Some ''DAILY'') = Date 1706745600000 \<and>
   YearFromTime 1706745600000 = 2024 \<and> MonthFromTime 1706745600000 = 1 \<and>
   DateFromTime 1706745600000 = 1 \<and>
   calculateNextRecurringDate utc_zone (Date 1706659200000) (Some ''WEEKLY'') = Date 1707264000000 \<and>
   YearFromTime 1707264000000 = 2024 \<and> MonthFromTime 1707264000000 = 1 \<and>
   DateFromTime 1707264000000 = 7 \<and>
   days_later eastern_zone 1710003600000 1 = 1710003600000 + 82800000 \<and>
   calculateNextRecurringDate eastern_zone (Date 1710003600000) (Some ''DAILY'') = Date 1710086400000 \<and>
   Day (LocalTime eastern_zone 1710086400000) = Day (LocalTime eastern_zone 1710003600000) + 1 \<and>
   TimeWithinDay (LocalTime eastern_zone 1710086400000) =
     TimeWithinDay (LocalTime eastern_zone 1710003600000) \<and>
   maxTime < \<bar>days_later utc_zone 8640000000000000 7\<bar> \<and>
   calculateNextRecurringDate utc_zone (Date 8640000000000000) (Some ''WEEKLY'') = InvalidDate"
proof -
  have z: "\<forall>x. utc_offset utc_zone x = 0" "\<forall>x. local_offset utc_zone x = 0"
    by (simp_all add: utc_zone_def)
  have d: "days_later utc_zone 1706659200000 1 = 1706745600000"
    "days_later utc_zone 1706659200000 7 = 1707264000000"
    using advance_DAILY_WEEKLY [of utc_zone 1706659200000 1 0]
      advance_DAILY_WEEKLY [of utc_zone 1706659200000 7 0] z
    by (simp_all add: msPerDay_def)
  have r: "\<bar>1706745600000\<bar> \<le> maxTime" "\<bar>1707264000000\<bar> \<le> maxTime"
    by (simp_all add: maxTime_def)
  have fields:
    "YearFromTime 1706659200000 = 2024" "MonthFromTime 1706659200000 = 0"
    "DateFromTime 1706659200000 = 31"
    "YearFromTime 1706745600000 = 2024" "MonthFromTime 1706745600000 = 1"
    "DateFromTime 1706745600000 = 1"
    "YearFromTime 1707264000000 = 2024" "MonthFromTime 1707264000000 = 1"
    "DateFromTime 1707264000000 = 7"
    by code_simp+
  have e: "days_later eastern_zone 1710003600000 1 = 1710086400000"
    "LocalTime eastern_zone 1710086400000 = LocalTime eastern_zone 1710003600000 + 1 * msPerDay"
    "\<bar>1710086400000\<bar> \<le> maxTime"
    by (simp_all add: days_later_def LocalTime_def UTC_def eastern_zone_def msPerDay_def
        maxTime_def)
  have o: "maxTime < \<bar>days_later utc_zone 8640000000000000 7\<bar>"
    by (simp add: days_later_def LocalTime_def UTC_def utc_zone_def msPerDay_def maxTime_def)
  show ?thesis
    using advance_DAILY_WEEKLY [of utc_zone 1706659200000 1 0]
      advance_DAILY_WEEKLY [of eastern_zone 1710003600000 1 0]
      advance_DAILY_WEEKLY [of utc_zone 8640000000000000 7 0]
      d r fields e o
    by simp
qed

text \<open>
  The last representable date, 275760-09-13T00:00:00Z, has no next day: on a host in UTC
  the calculator returns an Invalid Date.
\<close>

theorem advance_DAILY_last_date:
  "calculateNextRecurringDate utc_zone (Date 8640000000000000) (Some ''DAILY'') = InvalidDate"
  by (simp add: calculateNextRecurringDate_DAILY days_later_def LocalTime_def UTC_def
      utc_zone_def TimeClip_def msPerDay_def maxTime_def)

section \<open>Intervals outside the enumeration\<close>

text \<open>
  Claim C10. The calculator is a total function, and for every interval other than the
  strings DAILY, WEEKLY, MONTHLY and YEARLY, an absent interval included, it returns the
  start date it was given (an Invalid Date stays an Invalid Date).
\<close>

theorem calculateNextRecurringDate_other_interval:
  assumes "interval \<notin> {Some ''DAILY'', Some ''WEEKLY'', Some ''MONTHLY'', Some ''YEARLY''}"
  shows "calculateNextRecurringDate tz startDate interval = startDate"
  using assms by (simp add: calculateNextRecurringDate_def)

theorem calculateNextRecurringDate_other_interval_witness:
  "None \<notin> {Some ''DAILY'', Some ''WEEKLY'', Some ''MONTHLY'', Some ''YEARLY''} \<and>
   calculateNextRecurringDate utc_zone jan31 None = jan31 \<and>
   Some ''HOURLY'' \<notin> {Some ''DAILY'', Some ''WEEKLY'', Some ''MONTHLY'', Some ''YEARLY''} \<and>
   calculateNextRecurringDate eastern_zone InvalidDate (Some ''HOURLY'') = InvalidDate"
  using calculateNextRecurringDate_other_interval [of None utc_zone jan31]
    calculateNextRecurringDate_other_interval [of "Some ''HOURLY''" eastern_zone InvalidDate]
  by simp

section \<open>What a call does to the state\<close>

lemmas fixture_defs = shop_def alice_def bob_def salary_def lunch_def as_alice_def signed_out_def
  as_stranger_def entry_def jan15_def jan31_def purchase_def rent_def rate_limited_def
  rent_row_def shop_with_rent_def coffee_def cafe_def

text \<open>The subtractions of numbers that the examples need.\<close>

lemma js_minus_50_30: "js_minus 50 (- 30) = Some 80"
  by code_simp

lemma js_minus_30_30: "js_minus (- 30) (- 30) = Some 0"
  by code_simp

lemma js_minus_tenths:
  "js_minus (1 / 5) (- (1 / 10)) = Some (7500000000000001 / 25000000000000000)"
  by code_simp

lemmas js_minus_examples = js_minus_50_30 js_minus_30_30 js_minus_tenths

lemmas handler_defs = createTransaction_def createTransaction_try_def updateTransaction_def
  updateTransaction_try_def getTransaction_def getUserTransactions_def getUserTransactions_try_def
  db_transaction_def transaction_create_def transaction_update_def account_update_increment_def
  user_findUnique_def account_findUnique_def transaction_findUnique_def revalidatePath_def
  serializeAmount_def created_row_def updated_row_def rewrite_row_def increment_balance_def
  balanceChange_def newChange_def oldChange_def netChange_def nextRecurringDate_of_def

lemma serializeAmount_id: "serializeAmount obj = obj"
  by (simp add: serializeAmount_def)

lemma find_Some_list_ex: "find P xs = Some a \<Longrightarrow> (\<And>x. P x \<Longrightarrow> Q x) \<Longrightarrow> list_ex Q xs"
  by (induction xs) (auto split: if_splits)

lemma list_ex_find: "list_ex P xs \<Longrightarrow> \<exists>a. find P xs = Some a \<and> P a"
  by (induction xs) auto

lemma find_Some_map_if:
  "find P xs = Some x \<Longrightarrow> f x \<in> set (map (\<lambda>r. if P r then f r else r) xs)"
  by (induction xs) (auto split: if_splits)

lemma account_found_list_ex:
  "account_findUnique st aid uid = Some a \<Longrightarrow> list_ex (\<lambda>a. account_id a = aid) (accounts st)"
  unfolding account_findUnique_def by (erule find_Some_list_ex) simp

lemma find_increment_balance:
  "find (\<lambda>a. account_id a = aid) (map (increment_balance aid' inc) xs) =
   map_option (increment_balance aid' inc) (find (\<lambda>a. account_id a = aid) xs)"
  by (induction xs) (auto simp: increment_balance_def)

lemma transaction_found_rewritten:
  "transaction_findUnique st tid uid = Some original \<Longrightarrow>
   f original \<in> set (map (rewrite_row tid uid f) (transactions st))"
  unfolding transaction_findUnique_def
  using find_Some_map_if [of "\<lambda>t. txn_id t = tid \<and> userId t = uid" "transactions st" original f]
  by (simp add: rewrite_row_def [abs_def])

text \<open>
  A \<^verbatim>\<open>try\<close> block of create that returns has passed every check, and has appended the new
  row, incremented the balance and recorded the two paths; one that throws has changed
  nothing.
\<close>

lemma createTransaction_try_Returns:
  assumes "createTransaction_try e data st = (Returns t, st')"
  shows "\<exists>clerk user account.
           auth_userId e = Some clerk \<and> clerk \<noteq> [] \<and> decision e = Allowed \<and>
           user_findUnique st clerk = Some user \<and>
           account_findUnique st (accountId data) (user_id user) = Some account \<and>
           generated_id e \<notin> set (map txn_id (transactions st)) \<and>
           t = created_row (host_timezone e) (generated_id e) (user_id user) data \<and>
           st' = st\<lparr>transactions := transactions st @ [t],
                    accounts := map (increment_balance (accountId data) (balanceChange data)) (accounts st),
                    revalidated := revalidated st @ [''/dashboard'', ''/account/'' @ accountId data]\<rparr>"
  using assms
  by (auto simp: createTransaction_try_def db_transaction_def transaction_create_def
      account_update_increment_def revalidatePath_def created_row_def
      split: option.splits if_splits ArcjetDecision.splits prod.splits outcome.splits)

lemma createTransaction_try_Throws:
  assumes "createTransaction_try e data st = (Throws m, st')"
  shows "st' = st"
  using assms
  by (auto simp: createTransaction_try_def db_transaction_def
      split: option.splits if_splits ArcjetDecision.splits prod.splits outcome.splits)

lemma createTransaction_try_succeeds:
  assumes "auth_userId e = Some clerk" "clerk \<noteq> []" "decision e = Allowed"
    "user_findUnique st clerk = Some user"
    "account_findUnique st (accountId data) (user_id user) = Some account"
    "generated_id e \<notin> set (map txn_id (transactions st))"
  shows "\<exists>st'. createTransaction_try e data st =
            (Returns (created_row (host_timezone e) (generated_id e) (user_id user) data), st')"
  using assms account_found_list_ex[OF assms(5)]
  by (simp add: createTransaction_try_def db_transaction_def transaction_create_def
      account_update_increment_def created_row_def)

text \<open>The same for update.\<close>

lemma updateTransaction_try_Returns:
  assumes "updateTransaction_try e tid data st = (Returns t, st')"
  shows "\<exists>clerk user original n.
           auth_userId e = Some clerk \<and> clerk \<noteq> [] \<and>
           user_findUnique st clerk = Some user \<and>
           transaction_findUnique st tid (user_id user) = Some original \<and>
           list_ex (\<lambda>a. account_id a = accountId data) (accounts st) \<and>
           netChange original data = Some n \<and>
           t = updated_row (host_timezone e) data original \<and>
           st' = st\<lparr>transactions :=
                      map (rewrite_row tid (user_id user) (updated_row (host_timezone e) data))
                        (transactions st),
                    accounts := map (increment_balance (accountId data) n) (accounts st),
                    revalidated := revalidated st @ [''/dashboard'', ''/account/'' @ accountId data]\<rparr>"
  using assms
  by (auto simp: updateTransaction_try_def db_transaction_def transaction_update_def
      transaction_findUnique_def account_update_increment_def revalidatePath_def
      split: option.splits if_splits prod.splits outcome.splits)

lemma updateTransaction_try_succeeds:
  assumes "auth_userId e = Some clerk" "clerk \<noteq> []"
    "user_findUnique st clerk = Some user"
    "transaction_findUnique st tid (user_id user) = Some original"
    "list_ex (\<lambda>a. account_id a = accountId data) (accounts st)"
    "netChange original data = Some n"
  shows "\<exists>st'. updateTransaction_try e tid data st =
            (Returns (updated_row (host_timezone e) data original), st')"
  using assms
  by (simp add: updateTransaction_try_def db_transaction_def transaction_update_def
      account_update_increment_def)

lemma updateTransaction_try_Throws:
  assumes "updateTransaction_try e tid data st = (Throws m, st')"
  shows "st' = st"
  using assms
  by (auto simp: updateTransaction_try_def db_transaction_def
      split: option.splits if_splits prod.splits outcome.splits)

text \<open>The \<^verbatim>\<open>catch\<close>: what the handler returns, in terms of its \<^verbatim>\<open>try\<close> block.\<close>

lemma createTransaction_Success:
  "createTransaction e data st = (Returns (Success t), st') \<Longrightarrow>
   createTransaction_try e data st = (Returns t, st')"
  by (auto simp: createTransaction_def serializeAmount_id split: prod.splits outcome.splits)

lemma createTransaction_Failure:
  "createTransaction e data st = (Returns (Failure m), st') \<Longrightarrow>
   createTransaction_try e data st = (Throws m, st')"
  by (auto simp: createTransaction_def split: prod.splits outcome.splits)

lemma updateTransaction_Success:
  "updateTransaction e tid data st = (Returns (Success t), st') \<Longrightarrow>
   updateTransaction_try e tid data st = (Returns t, st')"
  by (auto simp: updateTransaction_def serializeAmount_id split: prod.splits outcome.splits)

lemma updateTransaction_Failure:
  "updateTransaction e tid data st = (Returns (Failure m), st') \<Longrightarrow>
   updateTransaction_try e tid data st = (Throws m, st')"
  by (auto simp: updateTransaction_def split: prod.splits outcome.splits)

lemma account_balance_incremented:
  "account_balance (st\<lparr>transactions := ts, accounts := map (increment_balance aid inc) (accounts st), revalidated := rs\<rparr>) aid
     = map_option (\<lambda>b. b + inc) (account_balance st aid)"
  by (cases "find (\<lambda>a. account_id a = aid) (accounts st)")
     (auto simp: account_balance_def find_increment_balance increment_balance_def
        dest: find_Some_iff[THEN iffD1])

section \<open>The balance after create\<close>

text \<open>
  Claim C2. After a successful create, the balance of the account \<^verbatim>\<open>data.accountId\<close> is
  its prior balance plus the signed amount of the new transaction: the amount more for an
  income, the amount less for an expense.
\<close>

theorem create_balance:
  assumes "createTransaction e data st = (Returns (Success t), st')"
  shows "\<exists>b. account_balance st (accountId data) = Some b \<and>
             account_balance st' (accountId data) = Some (b + signedAmount (type data) (amount data)) \<and>
             (type data = INCOME \<longrightarrow> account_balance st' (accountId data) = Some (b + amount data)) \<and>
             (type data = EXPENSE \<longrightarrow> account_balance st' (accountId data) = Some (b - amount data))"
proof -
  from createTransaction_try_Returns [OF createTransaction_Success [OF assms]]
  obtain user :: user and account where
    acc: "account_findUnique st (accountId data) (user_id user) = Some account" and
    st': "st' = st\<lparr>transactions := transactions st @ [t],
                    accounts := map (increment_balance (accountId data) (balanceChange data)) (accounts st),
                    revalidated := revalidated st @ [''/dashboard'', ''/account/'' @ accountId data]\<rparr>"
    by blast
  from list_ex_find [OF account_found_list_ex [OF acc]]
  obtain a where "find (\<lambda>a. account_id a = accountId data) (accounts st) = Some a" by blast
  then have b: "account_balance st (accountId data) = Some (balance a)"
    by (simp add: account_balance_def)
  have bc: "balanceChange data = signedAmount (type data) (amount data)"
    by (cases "type data") (simp_all add: balanceChange_def signedAmount_def)
  have "account_balance st' (accountId data) = Some (balance a + signedAmount (type data) (amount data))"
    unfolding st' account_balance_incremented b bc by simp
  with b show ?thesis by (auto simp: signedAmount_def)
qed

text \<open>Alice spends 30 from account A, which holds 70: the balance becomes 40.\<close>

theorem create_balance_witness:
  "fst (createTransaction as_alice (entry ''A'' EXPENSE 30) shop) = Returns (Success purchase) \<and>
   account_balance shop ''A'' = Some 70 \<and>
   account_balance (snd (createTransaction as_alice (entry ''A'' EXPENSE 30) shop)) ''A'' = Some 40"
proof -
  have f: "fst (createTransaction as_alice (entry ''A'' EXPENSE 30) shop) = Returns (Success purchase)"
    by (simp add: handler_defs fixture_defs)
  then have h: "createTransaction as_alice (entry ''A'' EXPENSE 30) shop =
      (Returns (Success purchase), snd (createTransaction as_alice (entry ''A'' EXPENSE 30) shop))"
    by (simp add: prod_eq_iff)
  have b: "account_balance shop ''A'' = Some 70"
    by (simp add: account_balance_def fixture_defs)
  have d: "accountId (entry ''A'' EXPENSE 30) = ''A''" "type (entry ''A'' EXPENSE 30) = EXPENSE"
    "amount (entry ''A'' EXPENSE 30) = 30"
    by (simp_all add: entry_def)
  show ?thesis
    using create_balance [OF h] f b by (simp add: d signedAmount_def)
qed

section \<open>The balance after update\<close>

lemma netChange_signedAmount:
  "netChange original data =
     js_minus (signedAmount (type data) (amount data))
       (signedAmount (type original) (amount original))"
  by (cases "type data"; cases "type original")
     (simp_all add: netChange_def newChange_def oldChange_def signedAmount_def)




section \<open>Atomicity\<close>

lemma createTransaction_returns: "\<exists>r st'. createTransaction e data st = (Returns r, st')"
  by (simp add: createTransaction_def split: prod.splits outcome.splits)

lemma updateTransaction_returns: "\<exists>r st'. updateTransaction e tid data st = (Returns r, st')"
  by (simp add: updateTransaction_def split: prod.splits outcome.splits)

lemma balanceChange_signedAmount: "balanceChange data = signedAmount (type data) (amount data)"
  by (cases "type data") (simp_all add: balanceChange_def signedAmount_def)

lemma create_effects:
  assumes "createTransaction e data st = (Returns (Success t), st')"
  shows "transactions st' = transactions st @ [t] \<and>
         accounts st' =
           map (increment_balance (accountId data) (signedAmount (type data) (amount data)))
             (accounts st) \<and>
         list_ex (\<lambda>a. account_id a = accountId data) (accounts st)"
proof -
  from createTransaction_try_Returns [OF createTransaction_Success [OF assms]]
  obtain user :: user and account where
    acc: "account_findUnique st (accountId data) (user_id user) = Some account" and
    st': "st' = st\<lparr>transactions := transactions st @ [t],
                    accounts := map (increment_balance (accountId data) (balanceChange data)) (accounts st),
                    revalidated := revalidated st @ [''/dashboard'', ''/account/'' @ accountId data]\<rparr>"
    by blast
  show ?thesis
    using account_found_list_ex [OF acc] by (simp add: st' balanceChange_signedAmount)
qed

lemma update_effects:
  assumes "updateTransaction e tid data st = (Returns (Success t), st')"
  shows "\<exists>uid original n.
          transaction_findUnique st tid uid = Some original \<and>
          t = updated_row (host_timezone e) data original \<and>
          transactions st' =
            map (rewrite_row tid uid (updated_row (host_timezone e) data)) (transactions st) \<and>
          t \<in> set (transactions st') \<and>
          js_minus (signedAmount (type data) (amount data))
            (signedAmount (type original) (amount original)) = Some n \<and>
          accounts st' = map (increment_balance (accountId data) n) (accounts st) \<and>
          list_ex (\<lambda>a. account_id a = accountId data) (accounts st)"
proof -
  from updateTransaction_try_Returns [OF updateTransaction_Success [OF assms]]
  obtain user :: user and original n where
    orig: "transaction_findUnique st tid (user_id user) = Some original" and
    acc: "list_ex (\<lambda>a. account_id a = accountId data) (accounts st)" and
    n: "netChange original data = Some n" and
    t: "t = updated_row (host_timezone e) data original" and
    st': "st' = st\<lparr>transactions :=
                      map (rewrite_row tid (user_id user) (updated_row (host_timezone e) data))
                        (transactions st),
                    accounts := map (increment_balance (accountId data) n) (accounts st),
                    revalidated := revalidated st @ [''/dashboard'', ''/account/'' @ accountId data]\<rparr>"
    by blast
  have "t \<in> set (transactions st')"
    using transaction_found_rewritten [OF orig, of "updated_row (host_timezone e) data"]
    by (simp add: st' t)
  with orig acc t n [unfolded netChange_signedAmount] show ?thesis
    by (intro exI [of _ "user_id user"] exI [of _ original] exI [of _ n]) (simp add: st')
qed

text \<open>
  Claim C4. Every create call either fails and leaves the whole state as it was, or
  succeeds with both effects: the new row is in the transaction table and the balance of
  \<^verbatim>\<open>data.accountId\<close> has grown by the signed amount. Every update call either fails and
  leaves the whole state as it was, or succeeds with both effects: the row is rewritten
  and the balance of \<^verbatim>\<open>data.accountId\<close> has grown by the net change, the number that
  the subtraction of the old signed amount from the new one gives. A failure inside
  \<^verbatim>\<open>db.$transaction\<close>, after the first write, is among the failures.
\<close>

theorem create_update_atomic:
  "((\<exists>m. createTransaction e data st = (Returns (Failure m), st)) \<or>
    (\<exists>t st'. createTransaction e data st = (Returns (Success t), st') \<and>
       transactions st' = transactions st @ [t] \<and>
       accounts st' =
         map (increment_balance (accountId data) (signedAmount (type data) (amount data)))
           (accounts st) \<and>
       list_ex (\<lambda>a. account_id a = accountId data) (accounts st))) \<and>
   ((\<exists>m. updateTransaction e tid data st = (Returns (Failure m), st)) \<or>
    (\<exists>t st' uid original n. updateTransaction e tid data st = (Returns (Success t), st') \<and>
       transaction_findUnique st tid uid = Some original \<and>
       t = updated_row (host_timezone e) data original \<and>
       transactions st' =
         map (rewrite_row tid uid (updated_row (host_timezone e) data)) (transactions st) \<and>
       t \<in> set (transactions st') \<and>
       js_minus (signedAmount (type data) (amount data))
         (signedAmount (type original) (amount original)) = Some n \<and>
       accounts st' = map (increment_balance (accountId data) n) (accounts st) \<and>
       list_ex (\<lambda>a. account_id a = accountId data) (accounts st)))"
proof
  obtain r st' where c: "createTransaction e data st = (Returns r, st')"
    using createTransaction_returns by blast
  show "(\<exists>m. createTransaction e data st = (Returns (Failure m), st)) \<or>
    (\<exists>t st'. createTransaction e data st = (Returns (Success t), st') \<and>
       transactions st' = transactions st @ [t] \<and>
       accounts st' =
         map (increment_balance (accountId data) (signedAmount (type data) (amount data)))
           (accounts st) \<and>
       list_ex (\<lambda>a. account_id a = accountId data) (accounts st))"
  proof (cases r)
    case (Success t)
    with c create_effects [of e data st t st'] show ?thesis by blast
  next
    case (Failure m)
    with c createTransaction_try_Throws [OF createTransaction_Failure, of e data st m st']
    show ?thesis by blast
  qed
next
  obtain r st' where c: "updateTransaction e tid data st = (Returns r, st')"
    using updateTransaction_returns by blast
  show "(\<exists>m. updateTransaction e tid data st = (Returns (Failure m), st)) \<or>
    (\<exists>t st' uid original n. updateTransaction e tid data st = (Returns (Success t), st') \<and>
       transaction_findUnique st tid uid = Some original \<and>
       t = updated_row (host_timezone e) data original \<and>
       transactions st' =
         map (rewrite_row tid uid (updated_row (host_timezone e) data)) (transactions st) \<and>
       t \<in> set (transactions st') \<and>
       js_minus (signedAmount (type data) (amount data))
         (signedAmount (type original) (amount original)) = Some n \<and>
       accounts st' = map (increment_balance (accountId data) n) (accounts st) \<and>
       list_ex (\<lambda>a. account_id a = accountId data) (accounts st))"
  proof (cases r)
    case (Success t)
    with c update_effects [of e tid data st t st'] show ?thesis by blast
  next
    case (Failure m)
    with c updateTransaction_try_Throws [OF updateTransaction_Failure, of e tid data st m st']
    show ?thesis by blast
  qed
qed

text \<open>
  Alice's purchase succeeds: the row is appended and account A goes from 70 to 40. Her
  update of the lunch to an account Z that does not exist fails inside
  \<^verbatim>\<open>db.$transaction\<close>: the row update alone would have changed the table, the
  increment then throws, and the state is as before. A signed-out caller and a
  rate-limited caller change nothing either.
\<close>

theorem create_update_atomic_witness:
  "fst (createTransaction as_alice (entry ''A'' EXPENSE 30) shop) = Returns (Success purchase) \<and>
   transactions (snd (createTransaction as_alice (entry ''A'' EXPENSE 30) shop)) =
     [salary, lunch, purchase] \<and>
   account_balance (snd (createTransaction as_alice (entry ''A'' EXPENSE 30) shop)) ''A'' = Some 40 \<and>
   snd (transaction_update ''t1'' ''u1'' (updated_row utc_zone (entry ''Z'' INCOME 50)) shop) \<noteq> shop \<and>
   updateTransaction as_alice ''t1'' (entry ''Z'' INCOME 50) shop =
     (Returns (Failure ''Record to update not found''), shop) \<and>
   createTransaction signed_out (entry ''A'' EXPENSE 30) shop =
     (Returns (Failure ''Unauthorized''), shop) \<and>
   createTransaction rate_limited (entry ''A'' EXPENSE 30) shop =
     (Returns (Failure ''Too many requests. Please try again later.''), shop)"
proof -
  have f: "fst (createTransaction as_alice (entry ''A'' EXPENSE 30) shop) = Returns (Success purchase)"
    by (simp add: handler_defs fixture_defs)
  from create_update_atomic [of as_alice "entry ''A'' EXPENSE 30" shop "''t1''"] f
  have "transactions (snd (createTransaction as_alice (entry ''A'' EXPENSE 30) shop)) =
     transactions shop @ [purchase]"
    by auto
  then have ts: "transactions (snd (createTransaction as_alice (entry ''A'' EXPENSE 30) shop)) =
     [salary, lunch, purchase]"
    by (simp add: shop_def)
  have b: "account_balance (snd (createTransaction as_alice (entry ''A'' EXPENSE 30) shop)) ''A'' = Some 40"
    by (simp add: handler_defs fixture_defs account_balance_def)
  have mid: "snd (transaction_update ''t1'' ''u1'' (updated_row utc_zone (entry ''Z'' INCOME 50)) shop) \<noteq> shop"
    by (simp add: handler_defs fixture_defs)
  have u: "updateTransaction as_alice ''t1'' (entry ''Z'' INCOME 50) shop =
     (Returns (Failure ''Record to update not found''), shop)"
    by (simp add: handler_defs fixture_defs js_minus_examples)
  have c: "createTransaction signed_out (entry ''A'' EXPENSE 30) shop =
     (Returns (Failure ''Unauthorized''), shop)"
    "createTransaction rate_limited (entry ''A'' EXPENSE 30) shop =
     (Returns (Failure ''Too many requests. Please try again later.''), shop)"
    by (simp_all add: createTransaction_def createTransaction_try_def signed_out_def
        rate_limited_def)
  show ?thesis
    by (intro conjI f ts b mid u c)
qed

section \<open>Error propagation\<close>



section \<open>Recurrence fields\<close>








text \<open>
  An update of the rent to a plain expense that has no interval key succeeds, and the
  row keeps the interval it had, with the flag off and no next-recurrence date.
\<close>

lemma update_without_interval_key_keeps_interval:
  "fst (updateTransaction as_alice ''t2'' (entry ''A'' EXPENSE 30) shop_with_rent) =
     Returns (Success (purchase\<lparr>recurringInterval := Given MONTHLY\<rparr>)) \<and>
   \<not> recurrence_consistent utc_zone (purchase\<lparr>recurringInterval := Given MONTHLY\<rparr>)"
  by (simp add: handler_defs fixture_defs js_minus_examples recurrence_consistent_def)

section \<open>The balance invariant\<close>

lemma account_id_increment_balance [simp]:
  "account_id (increment_balance aid inc a) = account_id a"
  by (simp add: increment_balance_def)

lemma balance_increment_balance:
  "balance (increment_balance aid inc a) = (if account_id a = aid then balance a + inc else balance a)"
  by (simp add: increment_balance_def)

lemma account_sum_append:
  "account_sum (ts @ [t]) aid =
     account_sum ts aid + (if accountId t = aid then signedAmount (type t) (amount t) else 0)"
  by (simp add: account_sum_def)

lemma account_sum_Cons:
  "account_sum (r # rs) aid =
     (if accountId r = aid then signedAmount (type r) (amount r) else 0) + account_sum rs aid"
  by (simp add: account_sum_def)

lemma rewrite_row_none:
  "\<forall>r\<in>set rs. txn_id r \<noteq> tid \<Longrightarrow> map (rewrite_row tid uid f) rs = rs"
  by (induction rs) (simp_all add: rewrite_row_def)

text \<open>
  Rewriting the one row with a given key takes its old signed amount out of the sum of
  the account it was in and puts its new signed amount into the sum of the account it is
  in now.
\<close>

lemma account_sum_rewrite:
  assumes "distinct (map txn_id ts)"
    and "find (\<lambda>t. txn_id t = tid \<and> userId t = uid) ts = Some original"
  shows "account_sum (map (rewrite_row tid uid f) ts) aid =
           account_sum ts aid
             - (if accountId original = aid then signedAmount (type original) (amount original) else 0)
             + (if accountId (f original) = aid
                then signedAmount (type (f original)) (amount (f original)) else 0)"
  using assms
proof (induction ts)
  case Nil
  then show ?case by simp
next
  case (Cons r rs)
  show ?case
  proof (cases "txn_id r = tid \<and> userId r = uid")
    case True
    with Cons.prems have o: "original = r" by simp
    from Cons.prems(1) True have "\<forall>x\<in>set rs. txn_id x \<noteq> tid"
      by (auto simp: image_iff)
    then have "map (rewrite_row tid uid f) rs = rs" by (rule rewrite_row_none)
    moreover from True have "rewrite_row tid uid f r = f r" by (simp add: rewrite_row_def)
    ultimately show ?thesis using o by (simp add: account_sum_Cons)
  next
    case False
    with Cons.prems have "find (\<lambda>t. txn_id t = tid \<and> userId t = uid) rs = Some original"
      by auto
    moreover from Cons.prems have "distinct (map txn_id rs)" by simp
    ultimately have "account_sum (map (rewrite_row tid uid f) rs) aid =
           account_sum rs aid
             - (if accountId original = aid then signedAmount (type original) (amount original) else 0)
             + (if accountId (f original) = aid
                then signedAmount (type (f original)) (amount (f original)) else 0)"
      using Cons.IH by blast
    moreover from False have "rewrite_row tid uid f r = r" by (auto simp: rewrite_row_def)
    ultimately show ?thesis by (simp add: account_sum_Cons)
  qed
qed

text \<open>Create keeps the invariant.\<close>

lemma create_preserves_balance_consistent:
  assumes "createTransaction e data st = (Returns (Success t), st')"
    and "balance_consistent st"
  shows "balance_consistent st'"
proof -
  from createTransaction_try_Returns [OF createTransaction_Success [OF assms(1)]]
  obtain user :: user where
    t: "t = created_row (host_timezone e) (generated_id e) (user_id user) data" and
    st': "st' = st\<lparr>transactions := transactions st @ [t],
                    accounts := map (increment_balance (accountId data) (balanceChange data)) (accounts st),
                    revalidated := revalidated st @ [''/dashboard'', ''/account/'' @ accountId data]\<rparr>"
    by blast
  have f: "accountId t = accountId data" "type t = type data" "amount t = amount data"
    by (simp_all add: t created_row_def)
  show ?thesis
    using assms(2)
    by (auto simp: balance_consistent_def st' list_all_iff account_sum_append f
        balanceChange_signedAmount balance_increment_balance)
qed

text \<open>
  Update keeps the invariant when primary keys are unique, the transaction stays in the
  account it was in, and the subtraction of the old signed amount from the new one is
  exact.
\<close>

lemma update_preserves_balance_consistent:
  assumes "updateTransaction e tid data st = (Returns (Success t), st')"
    and "keys_unique st" and "balance_consistent st"
    and same: "\<forall>r\<in>set (transactions st). txn_id r = tid \<longrightarrow> accountId r = accountId data"
    and exact: "\<forall>r\<in>set (transactions st). txn_id r = tid \<longrightarrow>
        netChange r data =
          Some (signedAmount (type data) (amount data) - signedAmount (type r) (amount r))"
  shows "balance_consistent st'"
proof -
  from updateTransaction_try_Returns [OF updateTransaction_Success [OF assms(1)]]
  obtain user :: user and original n where
    orig: "transaction_findUnique st tid (user_id user) = Some original" and
    n: "netChange original data = Some n" and
    st': "st' = st\<lparr>transactions :=
                      map (rewrite_row tid (user_id user) (updated_row (host_timezone e) data))
                        (transactions st),
                    accounts := map (increment_balance (accountId data) n) (accounts st),
                    revalidated := revalidated st @ [''/dashboard'', ''/account/'' @ accountId data]\<rparr>"
    by blast
  from orig have o: "original \<in> set (transactions st)" "txn_id original = tid"
    by (auto simp: transaction_findUnique_def find_Some_iff)
  with same have acc: "accountId original = accountId data" by blast
  from o exact n have n': "n =
      signedAmount (type data) (amount data) - signedAmount (type original) (amount original)"
    by auto
  have f: "accountId (updated_row (host_timezone e) data original) = accountId data"
    "type (updated_row (host_timezone e) data original) = type data"
    "amount (updated_row (host_timezone e) data original) = amount data"
    by (simp_all add: updated_row_def)
  have sum: "account_sum
        (map (rewrite_row tid (user_id user) (updated_row (host_timezone e) data))
           (transactions st)) aid =
      account_sum (transactions st) aid + (if accountId data = aid then n else 0)"
    for aid
    using account_sum_rewrite [OF assms(2)[unfolded keys_unique_def]
        orig[unfolded transaction_findUnique_def], of "updated_row (host_timezone e) data" aid]
    by (simp add: f acc n')
  show ?thesis
    using assms(3)
    by (auto simp: balance_consistent_def list_all_iff sum balance_increment_balance st')
qed

text \<open>
  Claim C3. The invariant holds in the small database, and Alice's update of her lunch
  (an expense of 30 on account A) to the same expense on her account C succeeds. The
  update adds the net change, here 0, to account C and leaves account A alone. Afterwards
  account A still has balance 70 while its transactions sum to 100, and account C has
  balance 0 while its transactions sum to -30: the invariant no longer holds.
\<close>

theorem update_to_other_account_breaks_balance:
  "balance_consistent shop \<and> keys_unique shop \<and>
   fst (updateTransaction as_alice ''t1'' (entry ''C'' EXPENSE 30) shop) =
     Returns (Success (lunch\<lparr>accountId := ''C''\<rparr>)) \<and>
   account_balance (snd (updateTransaction as_alice ''t1'' (entry ''C'' EXPENSE 30) shop)) ''A'' = Some 70 \<and>
   account_sum (transactions (snd (updateTransaction as_alice ''t1'' (entry ''C'' EXPENSE 30) shop))) ''A'' = 100 \<and>
   account_balance (snd (updateTransaction as_alice ''t1'' (entry ''C'' EXPENSE 30) shop)) ''C'' = Some 0 \<and>
   account_sum (transactions (snd (updateTransaction as_alice ''t1'' (entry ''C'' EXPENSE 30) shop))) ''C'' = - 30 \<and>
   \<not> balance_consistent (snd (updateTransaction as_alice ''t1'' (entry ''C'' EXPENSE 30) shop))"
  by (simp add: handler_defs fixture_defs js_minus_examples balance_consistent_def keys_unique_def
      account_sum_def signedAmount_def account_balance_def)

section \<open>The account check\<close>

text \<open>
  Create looks the account up with the caller as owner and fails with
  \<^verbatim>\<open>Account not found\<close>, changing nothing, when there is none.
\<close>

lemma create_account_not_found:
  assumes "auth_userId e = Some clerk" "clerk \<noteq> []" "decision e = Allowed"
    "user_findUnique st clerk = Some user"
    "account_findUnique st (accountId data) (user_id user) = None"
  shows "createTransaction e data st = (Returns (Failure ''Account not found''), st)"
  using assms by (simp add: createTransaction_def createTransaction_try_def)

text \<open>
  Update fails, changing nothing, when no account at all has the identifier: the
  increment finds no row.
\<close>

lemma update_account_missing:
  assumes "\<not> list_ex (\<lambda>a. account_id a = accountId data) (accounts st)"
  shows "\<exists>m. updateTransaction e tid data st = (Returns (Failure m), st)"
  using assms
  by (auto simp: updateTransaction_def updateTransaction_try_def db_transaction_def
      transaction_update_def account_update_increment_def
      split: option.splits prod.splits outcome.splits)

text \<open>
  Claim C5. Account B is Bob's, not Alice's. Alice's create on account B fails with
  \<^verbatim>\<open>Account not found\<close>. Her update of her lunch to an income of 50 on account B
  succeeds: the row moves to account B, and Bob's balance goes from 0 to 80.
\<close>

theorem update_accepts_foreign_account:
  "account_findUnique shop ''B'' (user_id alice) = None \<and>
   fst (createTransaction as_alice (entry ''B'' INCOME 50) shop) = Returns (Failure ''Account not found'') \<and>
   fst (updateTransaction as_alice ''t1'' (entry ''B'' INCOME 50) shop) =
     Returns (Success (lunch\<lparr>accountId := ''B'', type := INCOME, amount := 50\<rparr>)) \<and>
   account_balance shop ''B'' = Some 0 \<and>
   account_balance (snd (updateTransaction as_alice ''t1'' (entry ''B'' INCOME 50) shop)) ''B'' = Some 80"
  by (simp add: handler_defs fixture_defs js_minus_examples account_balance_def)

end
